theory Spec2Isabelle
  imports Main "HOL-Library.Sublist"
begin

section \<open>Data model (types.ts)\<close>

datatype Sender = User | Orion

datatype OrionState = Idle | Listening | Thinking | Responding | Error

text \<open>
  \<open>Message\<close>: the fields \<open>id\<close> and \<open>text\<close> are called \<open>id_msg\<close> and \<open>text_msg\<close>
  here. \<open>timestamp\<close> is the instant in milliseconds; \<open>attachments\<close> is optional in the
  interface.
\<close>

record Message =
  id_msg :: string
  text_msg :: string
  sender :: Sender
  timestamp :: nat
  attachments :: "string list option"

text \<open>
  A JavaScript \<open>number\<close> is an IEEE double. Its arithmetic and its decimal rendering are
  built into the language and are not modelled: the type of numbers is the parameter
  \<open>'n\<close>, and the three operations the service applies to numbers are passed in.
\<close>

record 'n JSNumberOps =
  mul100 :: "'n \<Rightarrow> 'n"
  toFixed0 :: "'n \<Rightarrow> string"
  toStr :: "'n \<Rightarrow> string"

record 'n GeoPoint =
  lat :: 'n
  lng :: 'n

record 'n DeviceContext =
  batteryLevel :: "'n option"
  isCharging :: bool
  isOnline :: bool
  platform :: string
  currentTime :: string
  geolocation :: "'n GeoPoint option"

datatype Personality = professional | friendly | direct

datatype VisualIntensity = minimal | balanced | immersive

record OrionSettings =
  personality :: Personality
  visualIntensity :: VisualIntensity
  voiceEnabled :: bool

section \<open>JavaScript string and array primitives used by the code\<close>

text \<open>\<open>s.split(c)\<close> for a one-character separator: never an empty array.\<close>

fun split_js :: "char \<Rightarrow> string \<Rightarrow> string list" where
  "split_js c [] = [[]]"
| "split_js c (x # xs) =
     (if x = c then [] # split_js c xs
      else (case split_js c xs of
              w # ws \<Rightarrow> (x # w) # ws
            | [] \<Rightarrow> [[x]]))"

text \<open>\<open>xs[i]\<close>: \<open>undefined\<close> (here \<open>None\<close>) out of range.\<close>

definition index_js :: "'a list \<Rightarrow> nat \<Rightarrow> 'a option" where
  "index_js xs i = (if i < length xs then Some (xs ! i) else None)"

text \<open>\<open>xs.slice(k)\<close>: a negative \<open>k\<close> counts from the end, and the start is clamped.\<close>

definition slice_js :: "'a list \<Rightarrow> int \<Rightarrow> 'a list" where
  "slice_js xs k =
     (let n = int (length xs);
          start = (if k < 0 then max (n + k) 0 else min k n)
      in drop (nat start) xs)"

section \<open>The service (services/geminiService.ts)\<close>

fun personalityTraits :: "Personality \<Rightarrow> string" where
  "personalityTraits professional =
     ''efficient, precise, and polite. Use technical terminology when appropriate but prioritize clarity.''"
| "personalityTraits friendly =
     ''warm, approachable, and conversational. Use emojis sparingly and sound like a helpful companion.''"
| "personalityTraits direct =
     ''concise to the point of brevity. Eliminate pleasantries and focus entirely on the data or action.''"

definition powerText :: "'n JSNumberOps \<Rightarrow> 'n DeviceContext \<Rightarrow> string" where
  "powerText js context =
     (case batteryLevel context of
        Some b \<Rightarrow> toFixed0 js (mul100 js b) @ ''%''
      | None \<Rightarrow> ''Unknown'')"

definition locationText :: "'n JSNumberOps \<Rightarrow> 'n DeviceContext \<Rightarrow> string" where
  "locationText js context =
     (case geolocation context of
        Some g \<Rightarrow> ''- Location: Lat '' @ toStr js (lat g) @ '', Lng '' @ toStr js (lng g)
      | None \<Rightarrow> [])"

text \<open>The template literal, line by line; every line break is the character 10.\<close>

definition instructionHead :: string where
  "instructionHead =
     ''\<newline>'' @
     ''    You are ORION, a next-generation intelligent operational entity living within this device.\<newline>'' @
     ''    You are not a chatbot; you are a cognitive layer between the user and the system.\<newline>'' @
     ''\<newline>'' @
     ''    Your Identity:\<newline>'' @
     ''    - Name: ORION\<newline>'' @
     ''    - Tone: ''"

definition instructionTail :: string where
  "instructionTail =
     ''\<newline>'' @
     ''\<newline>'' @
     ''    Capabilities:\<newline>'' @
     ''    - You can analyze images provided by the user.\<newline>'' @
     ''    - You simulate a persistent memory of this session.\<newline>'' @
     ''    - You should reference the device status if relevant (e.g., if battery is low, suggest saving energy).\<newline>'' @
     ''\<newline>'' @
     ''    Visual Output Guide:\<newline>'' @
     ''    - Use Markdown for formatting.\<newline>'' @
     ''    - Keep responses visually clean. \<newline>'' @
     ''  ''"

definition contextBlock :: "'n JSNumberOps \<Rightarrow> 'n DeviceContext \<Rightarrow> string" where
  "contextBlock js context =
     ''\<newline>'' @
     ''    - Core Directive: Observe, Interpret, Suggest, Execute.\<newline>'' @
     ''\<newline>'' @
     ''    Current Environmental Context:\<newline>'' @
     ''    - Time: '' @ currentTime context @ ''\<newline>'' @
     ''    - Connection: '' @ (if isOnline context then ''Online'' else ''Offline'') @ ''\<newline>'' @
     ''    - Power: '' @ powerText js context @ '' '' @
        (if isCharging context then ''(Charging)'' else ''(Discharging)'') @ ''\<newline>'' @
     ''    - Platform: '' @ platform context @ ''\<newline>'' @
     ''    '' @ locationText js context"

definition getSystemInstruction ::
  "'n JSNumberOps \<Rightarrow> 'n DeviceContext \<Rightarrow> OrionSettings \<Rightarrow> string" where
  "getSystemInstruction js context settings =
     instructionHead @ personalityTraits (personality settings) @
     contextBlock js context @ instructionTail"

text \<open>
  The values the template interpolates from the device context: the time, the
  platform, the battery percentage when a level is known and the two coordinates when
  a position is known.
\<close>

definition renderedFields :: "'n JSNumberOps \<Rightarrow> 'n DeviceContext \<Rightarrow> string list" where
  "renderedFields js ctx =
     [currentTime ctx, platform ctx] @
     (case batteryLevel ctx of Some b \<Rightarrow> [toFixed0 js (mul100 js b)] | None \<Rightarrow> []) @
     (case geolocation ctx of Some g \<Rightarrow> [toStr js (lat g), toStr js (lng g)] | None \<Rightarrow> [])"

text \<open>
  The request handed to the remote model. The constant \<open>temperature: 0.7\<close> of the
  configuration is a floating-point literal that no decision of the code depends on;
  it is left out.
\<close>

record InlineData =
  mimeType :: string
  data :: "string option"

datatype Part = TextPart string | InlineDataPart InlineData

record Request =
  model :: string
  parts :: "Part list"
  systemInstruction :: string

text \<open>
  What the service can throw: its own \<open>Error("API Key is missing.")\<close>, an error of
  the runtime (a method called on \<open>undefined\<close>), or whatever the remote call raises,
  rethrown unchanged.
\<close>

datatype RuntimeError = TypeError

datatype 'e Thrown = ApiKeyMissing | Runtime RuntimeError | Raised 'e

text \<open>\<open>!x\<close> and \<open>x || d\<close> on an optional string: \<open>undefined\<close> and \<open>""\<close> are falsy.\<close>

definition falsy :: "string option \<Rightarrow> bool" where
  "falsy x = (case x of None \<Rightarrow> True | Some s \<Rightarrow> s = [])"

definition recentHistory :: "Message list \<Rightarrow> Message list" where
  "recentHistory history = slice_js history (- 6)"

definition renderLine :: "Message \<Rightarrow> string" where
  "renderLine msg =
     (if sender msg = User then ''User'' else ''Orion'') @ '': '' @ text_msg msg @ ''\<newline>''"

definition conversationContext :: "Message list \<Rightarrow> string" where
  "conversationContext history =
     foldl (\<lambda>acc msg. acc @ renderLine msg) [] (recentHistory history)"

definition fullPrompt :: "Message list \<Rightarrow> string \<Rightarrow> string" where
  "fullPrompt history currentPrompt =
     conversationContext history @ ''\<newline>User: '' @ currentPrompt"

text \<open>
  The body of \<open>images.forEach\<close>. \<open>base64.split(';')[0]\<close> is the receiver of a method
  call: were it \<open>undefined\<close>, the call would throw.
\<close>

definition inlinePart :: "string \<Rightarrow> RuntimeError + Part" where
  "inlinePart base64 =
     (let rawBase64 = index_js (split_js CHR '','' base64) 1 in
      case index_js (split_js CHR '';'' base64) 0 of
        None \<Rightarrow> Inl TypeError
      | Some h \<Rightarrow>
          (let mime = index_js (split_js CHR '':'' h) 1 in
           Inr (InlineDataPart
             \<lparr>mimeType = (if falsy mime then ''image/png'' else the mime),
              data = rawBase64\<rparr>)))"

fun pushImages :: "Part list \<Rightarrow> string list \<Rightarrow> RuntimeError + Part list" where
  "pushImages ps [] = Inr ps"
| "pushImages ps (b # bs) =
     (case inlinePart b of
        Inl e \<Rightarrow> Inl e
      | Inr p \<Rightarrow> pushImages (ps @ [p]) bs)"

text \<open>Lines 54 to 88: everything the service computes before the remote call.\<close>

definition buildRequest ::
  "'n JSNumberOps \<Rightarrow> Message list \<Rightarrow> string \<Rightarrow> string list \<Rightarrow>
   'n DeviceContext \<Rightarrow> OrionSettings \<Rightarrow> RuntimeError + Request" where
  "buildRequest js history currentPrompt images context settings =
     (case pushImages [TextPart (fullPrompt history currentPrompt)] images of
        Inl e \<Rightarrow> Inl e
      | Inr ps \<Rightarrow>
          Inr \<lparr>model = ''gemini-2.5-flash-preview'', parts = ps,
               systemInstruction = getSystemInstruction js context settings\<rparr>)"

definition fallbackText :: string where
  "fallbackText = ''Systems unresponsive. Please try again.''"

text \<open>
  \<open>generateOrionResponse\<close>. \<open>apiKey\<close> is \<open>process.env.API_KEY\<close>; \<open>generateContent\<close>
  is the remote call, which raises (\<open>Inl\<close>) or returns a response whose \<open>text\<close> may be
  \<open>undefined\<close>. The second component of the result lists the requests that were sent
  to the remote service, in order.
\<close>

definition generateOrionResponse ::
  "'n JSNumberOps \<Rightarrow> string option \<Rightarrow> (Request \<Rightarrow> 'e + string option) \<Rightarrow>
   Message list \<Rightarrow> string \<Rightarrow> string list \<Rightarrow> 'n DeviceContext \<Rightarrow> OrionSettings \<Rightarrow>
   ('e Thrown + string) \<times> Request list" where
  "generateOrionResponse js apiKey generateContent history currentPrompt images context settings =
     (if falsy apiKey then (Inl ApiKeyMissing, [])
      else
        (case buildRequest js history currentPrompt images context settings of
           Inl e \<Rightarrow> (Inl (Runtime e), [])
         | Inr req \<Rightarrow>
             (case generateContent req of
                Inl err \<Rightarrow> (Inl (Raised err), [req])
              | Inr response_text \<Rightarrow>
                  (Inr (if falsy response_text then fallbackText else the response_text),
                   [req]))))"

section \<open>The application (constants.ts, App.tsx)\<close>

definition DEFAULT_SETTINGS :: OrionSettings where
  "DEFAULT_SETTINGS =
     \<lparr>personality = professional, visualIntensity = balanced, voiceEnabled = False\<rparr>"

definition INITIAL_GREETING :: string where
  "INITIAL_GREETING =
     ''Orion systems online. Physiological and environmental sensors calibrated. How may I assist you today?''"

text \<open>
  \<open>String.prototype.trim\<close> strips white space at both ends. A \<open>char\<close> stands for a
  code unit below 256; the white space among those is tab, line feed, vertical tab,
  form feed, carriage return, space and the no-break space.
\<close>

definition isWhiteSpace :: "char \<Rightarrow> bool" where
  "isWhiteSpace c = (of_char c \<in> {9, 10, 11, 12, 13, 32, 160 :: nat})"

definition trim :: "string \<Rightarrow> string" where
  "trim s = rev (dropWhile isWhiteSpace (rev (dropWhile isWhiteSpace s)))"

text \<open>\<open>n.toString()\<close> for a natural number, as \<open>Date.now()\<close> is.\<close>

fun toString_nat :: "nat \<Rightarrow> string" where
  "toString_nat n =
     (if n < 10 then [char_of (48 + n)]
      else toString_nat (n div 10) @ [char_of (48 + n mod 10)])"

declare toString_nat.simps [simp del]

text \<open>
  The callbacks handed to \<open>setTimeout\<close>: the boot greeting (line 40), the display of
  the reply (line 122, closing over \<open>responseText\<close>) and the reset after a failure
  (line 135). A pending timer is its delay in milliseconds and its callback.
\<close>

datatype TimerAction = BootGreeting | AppendReply string | ResetIdle

text \<open>
  The component state: one field per \<open>useState\<close> cell that the handlers read or
  write, and the pending timers. Each handler runs to completion on the state left by
  the previous one.
\<close>

record 'n AppState =
  messages :: "Message list"
  input :: string
  orionState :: OrionState
  settings :: OrionSettings
  attachedImages :: "string list"
  deviceContext :: "'n DeviceContext"
  timers :: "(nat \<times> TimerAction) list"

text \<open>
  The first render; \<open>online\<close>, \<open>plat\<close> and \<open>time\<close> are what the browser reports.
  The mount effect has scheduled the greeting.
\<close>

definition initialState :: "bool \<Rightarrow> string \<Rightarrow> string \<Rightarrow> 'n AppState" where
  "initialState online plat time =
     \<lparr>messages = [], input = [], orionState = Idle, settings = DEFAULT_SETTINGS,
      attachedImages = [],
      deviceContext =
        \<lparr>batteryLevel = None, isCharging = False, isOnline = online, platform = plat,
         currentTime = time, geolocation = None\<rparr>,
      timers = [(1000, BootGreeting)]\<rparr>"

text \<open>
  Line 95: the guard of \<open>handleSendMessage\<close>. The message of line 97 reads the clock
  twice (\<open>Date.now()\<close> and \<open>new Date()\<close>); both reads are the instant \<open>now\<close>.
\<close>

definition submitRejected :: "'n AppState \<Rightarrow> bool" where
  "submitRejected s =
     ((trim (input s) = [] \<and> length (attachedImages s) = 0) \<or> orionState s = Thinking)"

definition newUserMessage :: "nat \<Rightarrow> 'n AppState \<Rightarrow> Message" where
  "newUserMessage now s =
     \<lparr>id_msg = toString_nat now, text_msg = input s, sender = User, timestamp = now,
      attachments = Some (attachedImages s)\<rparr>"

text \<open>Lines 95 to 108: \<open>handleSendMessage\<close> up to the call of the service.\<close>

definition handleSendMessage_sync :: "nat \<Rightarrow> 'n AppState \<Rightarrow> 'n AppState" where
  "handleSendMessage_sync now s =
     (if submitRejected s then s
      else s\<lparr>messages := messages s @ [newUserMessage now s],
             input := [],
             attachedImages := [],
             orionState := Thinking\<rparr>)"

text \<open>
  Lines 118 to 136: \<open>handleSendMessage\<close> after the \<open>await\<close>, on the value or the
  exception of the service.
\<close>

definition handleSendMessage_settled :: "'x + string \<Rightarrow> 'n AppState \<Rightarrow> 'n AppState" where
  "handleSendMessage_settled r s =
     (case r of
        Inr responseText \<Rightarrow>
          s\<lparr>orionState := Responding, timers := timers s @ [(800, AppendReply responseText)]\<rparr>
      | Inl err \<Rightarrow>
          s\<lparr>orionState := Error, timers := timers s @ [(3000, ResetIdle)]\<rparr>)"

text \<open>
  The whole handler when nothing else happens during the \<open>await\<close>. The service is
  called with the values the handler closed over: the transcript, input and images of
  the state it was invoked on. The result is the state and the requests sent.
\<close>

definition handleSendMessage ::
  "'n JSNumberOps \<Rightarrow> string option \<Rightarrow> (Request \<Rightarrow> 'e + string option) \<Rightarrow> nat \<Rightarrow>
   'n AppState \<Rightarrow> 'n AppState \<times> Request list" where
  "handleSendMessage js apiKey generateContent now s =
     (if submitRejected s then (s, [])
      else
        (let s1 = handleSendMessage_sync now s;
             (r, sent) = generateOrionResponse js apiKey generateContent
                           (messages s) (input s) (attachedImages s) (deviceContext s) (settings s)
         in (handleSendMessage_settled r s1, sent)))"

text \<open>A timer callback, run at the instant \<open>now\<close>.\<close>

fun runTimer :: "nat \<Rightarrow> TimerAction \<Rightarrow> 'n AppState \<Rightarrow> 'n AppState" where
  "runTimer now BootGreeting s =
     s\<lparr>messages :=
         [\<lparr>id_msg = ''init-1'', text_msg = INITIAL_GREETING, sender = Orion, timestamp = now,
           attachments = None\<rparr>]\<rparr>"
| "runTimer now (AppendReply responseText) s =
     s\<lparr>messages := messages s @
         [\<lparr>id_msg = toString_nat (now + 1), text_msg = responseText, sender = Orion,
           timestamp = now, attachments = None\<rparr>],
       orionState := Idle\<rparr>"
| "runTimer now ResetIdle s = s\<lparr>orionState := Idle\<rparr>"

definition fireTimer :: "nat \<Rightarrow> nat \<Rightarrow> 'n AppState \<Rightarrow> 'n AppState" where
  "fireTimer i now s =
     (if i < length (timers s)
      then runTimer now (snd (timers s ! i))
             (s\<lparr>timers := take i (timers s) @ drop (Suc i) (timers s)\<rparr>)
      else s)"

text \<open>
  The states the component can be in: the first render followed by any sequence of its
  handlers (send, settlement of a call, a timer, typing, attaching and clearing images,
  the settings buttons, the clock, connectivity and battery listeners). Settlements and
  timers are allowed at any moment, which only adds states.
\<close>

inductive reachable :: "'n AppState \<Rightarrow> bool" where
  r_init: "reachable (initialState online plat time)"
| r_send: "reachable s \<Longrightarrow> reachable (handleSendMessage_sync now s)"
| r_resolved: "reachable s \<Longrightarrow> reachable (handleSendMessage_settled (Inr responseText :: unit + string) s)"
| r_rejected: "reachable s \<Longrightarrow> reachable (handleSendMessage_settled (Inl ()) s)"
| r_timer: "reachable s \<Longrightarrow> reachable (fireTimer i now s)"
| r_input: "reachable s \<Longrightarrow> reachable (s\<lparr>input := v\<rparr>)"
| r_attach: "reachable s \<Longrightarrow> reachable (s\<lparr>attachedImages := attachedImages s @ [img]\<rparr>)"
| r_clear: "reachable s \<Longrightarrow> reachable (s\<lparr>attachedImages := []\<rparr>)"
| r_personality: "reachable s \<Longrightarrow> reachable (s\<lparr>settings := (settings s)\<lparr>personality := p\<rparr>\<rparr>)"
| r_intensity: "reachable s \<Longrightarrow> reachable (s\<lparr>settings := (settings s)\<lparr>visualIntensity := v\<rparr>\<rparr>)"
| r_clock: "reachable s \<Longrightarrow> reachable (s\<lparr>deviceContext := (deviceContext s)\<lparr>currentTime := t\<rparr>\<rparr>)"
| r_online: "reachable s \<Longrightarrow> reachable (s\<lparr>deviceContext := (deviceContext s)\<lparr>isOnline := b\<rparr>\<rparr>)"
| r_battery: "reachable s \<Longrightarrow>
     reachable (s\<lparr>deviceContext := (deviceContext s)\<lparr>batteryLevel := Some l, isCharging := c\<rparr>\<rparr>)"

text \<open>
  The operations of the session state machine, as events: an invocation of the send
  handler, the settlement of the gateway call with a text or with a failure, the
  delayed display of the reply, and the timed reset.
\<close>

datatype SessionOp =
  Submit nat | GatewaySuccess string | GatewayFailure | DisplayReply nat string | TimedReset nat

fun applyOp :: "SessionOp \<Rightarrow> 'n AppState \<Rightarrow> 'n AppState" where
  "applyOp (Submit now) s = handleSendMessage_sync now s"
| "applyOp (GatewaySuccess responseText) s =
     handleSendMessage_settled (Inr responseText :: unit + string) s"
| "applyOp GatewayFailure s = handleSendMessage_settled (Inl ()) s"
| "applyOp (DisplayReply now responseText) s = runTimer now (AppendReply responseText) s"
| "applyOp (TimedReset now) s = runTimer now ResetIdle s"

section \<open>Example values\<close>

text \<open>
  Concrete inputs on which the theorems below are evaluated. In \<open>js0\<close> the numbers are
  the naturals, rendered in decimal.
\<close>

definition js0 :: "nat JSNumberOps" where
  "js0 = \<lparr>mul100 = (\<lambda>n. n * 100), toFixed0 = toString_nat, toStr = toString_nat\<rparr>"

definition ctx0 :: "nat DeviceContext" where
  "ctx0 = \<lparr>batteryLevel = None, isCharging = False, isOnline = True, platform = ''Win32'',
      currentTime = ''11/2/2026, 7:17:00 AM'', geolocation = None\<rparr>"

definition msg :: "Sender \<Rightarrow> string \<Rightarrow> Message" where
  "msg who t = \<lparr>id_msg = ''1'', text_msg = t, sender = who, timestamp = 1, attachments = None\<rparr>"

definition h6 :: "Message list" where
  "h6 = [msg User ''b'', msg Orion ''c'', msg User ''d'', msg Orion ''e'', msg User ''f'',
         msg Orion ''g'']"

definition sTyped :: "nat AppState" where
  "sTyped = (initialState True ''Win32'' ''11/2/2026, 7:17:00 AM'')\<lparr>input := ''hi''\<rparr>"

definition sBlank :: "nat AppState" where
  "sBlank = initialState True ''Win32'' ''11/2/2026, 7:17:00 AM''"

definition ctxFull :: "nat DeviceContext" where
  "ctxFull = ctx0\<lparr>batteryLevel := Some 1, geolocation := Some \<lparr>lat = 37, lng = 122\<rparr>\<rparr>"

definition failingCall :: "Request \<Rightarrow> unit + string option" where
  "failingCall req = Inl ()"

definition sReady :: "nat AppState" where
  "sReady = (fireTimer 0 1000 sBlank)\<lparr>input := ''hi''\<rparr>"

definition sResponding :: "nat AppState" where
  "sResponding =
     (handleSendMessage_settled (Inr ''reply'' :: unit + string)
        (handleSendMessage_sync 2000 sReady))\<lparr>input := ''again''\<rparr>"

section \<open>Facts about the primitives\<close>

lemma split_js_nonempty: "split_js c s \<noteq> []"
  by (induction s) (auto split: list.splits)

lemma split_js_no_sep: "c \<notin> set s \<Longrightarrow> split_js c s = [s]"
  by (induction s) auto

lemma split_js_first: "c \<notin> set a \<Longrightarrow> split_js c (a @ c # b) = a # split_js c b"
  by (induction a) auto

lemma hd_split_js: "hd (split_js c s) = takeWhile (\<lambda>x. x \<noteq> c) s"
  by (induction s) (auto split: list.splits simp: split_js_nonempty)

lemma index_js_0: "xs \<noteq> [] \<Longrightarrow> index_js xs 0 = Some (hd xs)"
  by (cases xs) (auto simp: index_js_def)

lemma foldl_append_concat: "foldl (\<lambda>acc x. acc @ f x) a xs = a @ concat (map f xs)"
  by (induction xs arbitrary: a) auto

lemma recentHistory_drop: "recentHistory history = drop (length history - 6) history"
  by (auto simp: recentHistory_def slice_js_def Let_def max_def nat_diff_distrib intro: arg_cong)

lemma conversationContext_concat:
  "conversationContext history = concat (map renderLine (drop (length history - 6) history))"
  by (simp add: conversationContext_def foldl_append_concat recentHistory_drop)

lemma inlinePart_total:
  "inlinePart base64 =
     Inr (InlineDataPart
       \<lparr>mimeType =
          (let mime = index_js (split_js CHR '':'' (takeWhile (\<lambda>x. x \<noteq> CHR '';'') base64)) 1
           in if falsy mime then ''image/png'' else the mime),
        data = index_js (split_js CHR '','' base64) 1\<rparr>)"
  by (simp add: inlinePart_def index_js_0 split_js_nonempty hd_split_js Let_def)

lemma pushImages_map:
  "\<exists>ps'. pushImages ps images = Inr (ps @ ps') \<and> length ps' = length images \<and>
     (\<forall>i < length images. inlinePart (images ! i) = Inr (ps' ! i))"
proof (induction images arbitrary: ps)
  case Nil
  then show ?case by simp
next
  case (Cons b bs)
  obtain p where p: "inlinePart b = Inr p"
    using inlinePart_total by blast
  from Cons.IH [of "ps @ [p]"] obtain ps' where
    ps': "pushImages (ps @ [p]) bs = Inr ((ps @ [p]) @ ps')" "length ps' = length bs"
      "\<forall>i < length bs. inlinePart (bs ! i) = Inr (ps' ! i)"
    by blast
  show ?case
  proof (intro exI conjI allI impI)
    show "pushImages ps (b # bs) = Inr (ps @ (p # ps'))"
      using p ps'(1) by simp
    show "length (p # ps') = length (b # bs)" using ps'(2) by simp
    fix i assume "i < length (b # bs)"
    then show "inlinePart ((b # bs) ! i) = Inr ((p # ps') ! i)"
      using p ps'(3) by (cases i) auto
  qed
qed

lemma buildRequest_total:
  "\<exists>ps'. buildRequest js history currentPrompt images ctx st =
      Inr \<lparr>model = ''gemini-2.5-flash-preview'',
           parts = TextPart (fullPrompt history currentPrompt) # ps',
           systemInstruction = getSystemInstruction js ctx st\<rparr> \<and>
     length ps' = length images \<and>
     (\<forall>i < length images. inlinePart (images ! i) = Inr (ps' ! i))"
proof -
  from pushImages_map [of "[TextPart (fullPrompt history currentPrompt)]" images]
  obtain ps' where
    "pushImages [TextPart (fullPrompt history currentPrompt)] images =
       Inr ([TextPart (fullPrompt history currentPrompt)] @ ps')"
    "length ps' = length images"
    "\<forall>i < length images. inlinePart (images ! i) = Inr (ps' ! i)"
    by blast
  then show ?thesis by (auto simp: buildRequest_def)
qed

lemma fullPrompt_recent:
  "fullPrompt history p = fullPrompt (drop (length history - 6) history) p"
  by (simp add: fullPrompt_def conversationContext_concat)

lemma takeWhile_first: "c \<notin> set a \<Longrightarrow> takeWhile (\<lambda>x. x \<noteq> c) (a @ c # b) = a"
  by (induction a) auto

lemma inlinePart_wellformed:
  assumes "CHR '':'' \<notin> set scheme" "CHR '';'' \<notin> set scheme" "CHR '','' \<notin> set scheme"
    and "CHR '':'' \<notin> set mime" "CHR '';'' \<notin> set mime" "CHR '','' \<notin> set mime" "mime \<noteq> []"
    and "CHR '','' \<notin> set payload"
  shows "inlinePart (scheme @ '':'' @ mime @ '';base64,'' @ payload) =
           Inr (InlineDataPart \<lparr>mimeType = mime, data = Some payload\<rparr>)"
proof -
  let ?s = "scheme @ '':'' @ mime @ '';base64,'' @ payload"
  have c: "split_js CHR '','' ?s = [scheme @ '':'' @ mime @ '';base64'', payload]"
    using split_js_first [of "CHR '',''" "scheme @ '':'' @ mime @ '';base64''" payload] assms
    by (simp add: split_js_no_sep)
  have t: "takeWhile (\<lambda>x. x \<noteq> CHR '';'') ?s = scheme @ '':'' @ mime"
    using takeWhile_first [of "CHR '';''" "scheme @ '':'' @ mime" "''base64,'' @ payload"] assms
    by simp
  have m: "split_js CHR '':'' (scheme @ '':'' @ mime) = [scheme, mime]"
    using split_js_first [of "CHR '':''" scheme mime] assms by (simp add: split_js_no_sep)
  show ?thesis
    unfolding inlinePart_total t m c using assms(7) by (simp add: index_js_def falsy_def)
qed

lemma inlinePart_no_colon:
  assumes "CHR '':'' \<notin> set (takeWhile (\<lambda>c. c \<noteq> CHR '';'') base64)"
  shows "inlinePart base64 =
           Inr (InlineDataPart \<lparr>mimeType = ''image/png'', data = index_js (split_js CHR '','' base64) 1\<rparr>)"
  unfolding inlinePart_total using assms by (simp add: split_js_no_sep index_js_def falsy_def)

lemma inlinePart_no_comma:
  assumes "CHR '','' \<notin> set base64"
  shows "\<exists>m. inlinePart base64 = Inr (InlineDataPart \<lparr>mimeType = m, data = None\<rparr>)"
  unfolding inlinePart_total using assms by (simp add: split_js_no_sep index_js_def)

lemma reachable_not_Listening: "reachable s \<Longrightarrow> orionState s \<noteq> Listening"
proof (induction rule: reachable.induct)
  case (r_timer s i now)
  then show ?case
    by (cases "snd (timers s ! i)") (auto simp: fireTimer_def)
qed (auto simp: initialState_def handleSendMessage_sync_def handleSendMessage_settled_def)

lemma trim_Nil: "trim [] = []"
  by (simp add: trim_def)

lemma submit_accepted_iff:
  "handleSendMessage_sync now s \<noteq> s \<longleftrightarrow> \<not> submitRejected s"
proof
  assume "handleSendMessage_sync now s \<noteq> s"
  then show "\<not> submitRejected s" by (auto simp: handleSendMessage_sync_def)
next
  assume a: "\<not> submitRejected s"
  then have "orionState s \<noteq> Thinking" by (simp add: submitRejected_def)
  moreover have "orionState (handleSendMessage_sync now s) = Thinking"
    using a by (simp add: handleSendMessage_sync_def)
  ultimately show "handleSendMessage_sync now s \<noteq> s" by auto
qed

lemma sReady_fields:
  "timers sReady = []" "orionState sReady = Idle" "input sReady = ''hi''"
  "attachedImages sReady = []" "length (messages sReady) = 1"
  by (simp_all add: sReady_def sBlank_def initialState_def fireTimer_def)

lemma sReady_accepted: "\<not> submitRejected sReady"
  by (simp add: submitRejected_def sReady_fields trim_def isWhiteSpace_def)

lemma sResponding_fields:
  "timers sResponding = [(800, AppendReply ''reply'')]" "orionState sResponding = Responding"
  "input sResponding = ''again''" "attachedImages sResponding = []"
  "length (messages sResponding) = 2"
  using sReady_accepted
  by (simp_all add: sResponding_def handleSendMessage_settled_def handleSendMessage_sync_def
      sReady_fields)

lemma sResponding_accepted: "\<not> submitRejected sResponding"
  by (simp add: submitRejected_def sResponding_fields trim_def isWhiteSpace_def)

lemma reachable_sReady: "reachable sReady"
  unfolding sReady_def sBlank_def by (intro r_input r_timer r_init)

lemma reachable_sResponding: "reachable sResponding"
  unfolding sResponding_def by (intro r_input r_resolved r_send reachable_sReady)

lemma applyOp_appends:
  "\<exists>added. messages (applyOp op s) = messages s @ added \<and> length added \<le> 1"
  by (cases op) (auto simp: handleSendMessage_sync_def handleSendMessage_settled_def)

lemma run_appends:
  "\<exists>added. messages (foldl (\<lambda>s op. applyOp op s) s ops) = messages s @ added"
proof (induction ops arbitrary: s)
  case Nil
  then show ?case by simp
next
  case (Cons op ops)
  obtain a where a: "messages (applyOp op s) = messages s @ a"
    using applyOp_appends by blast
  obtain b where "messages (foldl (\<lambda>s op. applyOp op s) (applyOp op s) ops) =
      messages (applyOp op s) @ b"
    using Cons.IH by blast
  with a show ?case by simp
qed

section \<open>Facts about occurrences in the system instruction\<close>

text \<open>
  A text that lacks a character cannot lie across an occurrence of that character.
\<close>

lemma sublist_sep:
  assumes "c \<notin> set X"
  shows "sublist X (a @ c # b) \<longleftrightarrow> sublist X a \<or> sublist X b"
proof
  assume "sublist X (a @ c # b)"
  then consider "sublist X a" | "sublist X (c # b)"
    | x1 x2 where "X = x1 @ x2" "suffix x1 a" "prefix x2 (c # b)"
    unfolding sublist_append by blast
  then show "sublist X a \<or> sublist X b"
  proof cases
    case 1
    then show ?thesis by simp
  next
    case 2
    then have "prefix X (c # b) \<or> sublist X b" by (simp add: sublist_Cons_right)
    moreover have "prefix X (c # b) \<Longrightarrow> X = []"
      using assms by (cases X) auto
    ultimately show ?thesis by auto
  next
    case 3
    have "x2 = []" using 3(1,3) assms by (cases x2) auto
    with 3 show ?thesis by auto
  qed
next
  assume "sublist X a \<or> sublist X b"
  then show "sublist X (a @ c # b)"
    by (metis sublist_append sublist_Cons_right)
qed

lemma sublist_snoc_last:
  assumes "X \<noteq> []" "last X \<noteq> c"
  shows "sublist X (a @ [c]) \<longleftrightarrow> sublist X a"
proof -
  have "\<not> suffix X (a @ [c])"
  proof
    assume "suffix X (a @ [c])"
    then obtain z where "a @ [c] = z @ X" by (auto simp: suffix_def)
    then have "last (a @ [c]) = last (z @ X)" by simp
    with assms show False by simp
  qed
  then show ?thesis using sublist_snoc [of X a c] by blast
qed

lemma sublist_sep2:
  assumes "c2 \<notin> set X" "X \<noteq> []" "last X \<noteq> c1"
  shows "sublist X (a @ c1 # c2 # b) \<longleftrightarrow> sublist X a \<or> sublist X b"
proof -
  have "sublist X ((a @ [c1]) @ c2 # b) \<longleftrightarrow> sublist X (a @ [c1]) \<or> sublist X b"
    using assms(1) by (rule sublist_sep)
  then show ?thesis using sublist_snoc_last [OF assms(2,3)] by simp
qed

lemma sublist_sep3:
  assumes "c3 \<notin> set X" "X \<noteq> []" "last X \<noteq> c1" "last X \<noteq> c2"
  shows "sublist X (a @ c1 # c2 # c3 # b) \<longleftrightarrow> sublist X a \<or> sublist X b"
proof -
  have "sublist X ((a @ [c1]) @ c2 # c3 # b) \<longleftrightarrow> sublist X (a @ [c1]) \<or> sublist X b"
    using assms(1,2,4) by (rule sublist_sep2)
  then show ?thesis using sublist_snoc_last [OF assms(2,3)] by simp
qed

lemma sublist_end:
  assumes "c \<notin> set X" "X \<noteq> []"
  shows "sublist X (a @ [c]) \<longleftrightarrow> sublist X a"
  using sublist_sep [OF assms(1), of a "[]"] assms(2) by simp

lemmas chew = sublist_code(3) prefix_code

lemma sublist_lines:
  assumes "nl \<notin> set X" "X \<noteq> []"
  shows "sublist X (concat (map (\<lambda>l. l @ [nl]) ls) @ r) \<longleftrightarrow> (\<exists>l\<in>set ls. sublist X l) \<or> sublist X r"
proof (induction ls)
  case Nil
  then show ?case by simp
next
  case (Cons l ls)
  have "sublist X (l @ nl # (concat (map (\<lambda>l. l @ [nl]) ls) @ r)) \<longleftrightarrow>
        sublist X l \<or> sublist X (concat (map (\<lambda>l. l @ [nl]) ls) @ r)"
    using assms(1) by (rule sublist_sep)
  with Cons show ?case by auto
qed

lemma traits_facts:
  "CHR 10 \<notin> set (personalityTraits q)" "personalityTraits q \<noteq> []"
  "96 \<le> length (personalityTraits q)"
  by (cases q; simp)+

lemma traits_short: "length l < 96 \<Longrightarrow> sublist (personalityTraits q) l = False"
  using sublist_length_le [of "personalityTraits q" l] traits_facts(3) [of q] by auto

lemma instruction_lines:
  "getSystemInstruction js ctx st =
     concat (map (\<lambda>l. l @ [CHR 10])
       [[],
        ''    You are ORION, a next-generation intelligent operational entity living within this device.'',
        ''    You are not a chatbot; you are a cognitive layer between the user and the system.'',
        [],
        ''    Your Identity:'',
        ''    - Name: ORION'',
        ''    - Tone: '' @ personalityTraits (personality st),
        ''    - Core Directive: Observe, Interpret, Suggest, Execute.'',
        [],
        ''    Current Environmental Context:'',
        ''    - Time: '' @ currentTime ctx,
        ''    - Connection: '' @ (if isOnline ctx then ''Online'' else ''Offline''),
        ''    - Power: '' @ powerText js ctx @ '' '' @
           (if isCharging ctx then ''(Charging)'' else ''(Discharging)''),
        ''    - Platform: '' @ platform ctx,
        ''    '' @ locationText js ctx,
        [],
        ''    Capabilities:'',
        ''    - You can analyze images provided by the user.'',
        ''    - You simulate a persistent memory of this session.'',
        ''    - You should reference the device status if relevant (e.g., if battery is low, suggest saving energy).'',
        [],
        ''    Visual Output Guide:'',
        ''    - Use Markdown for formatting.'',
        ''    - Keep responses visually clean. '']) @ ''  ''"
  by (simp add: getSystemInstruction_def instructionHead_def contextBlock_def instructionTail_def)

lemma tone_line:
  "sublist (personalityTraits q) (''    - Tone: '' @ personalityTraits p) \<longleftrightarrow> q = p"
  by (cases q; cases p; simp add: chew)

lemma labelled_line:
  "sublist (personalityTraits q) (''    - Time: '' @ t) \<longleftrightarrow> sublist (personalityTraits q) t"
  "sublist (personalityTraits q) (''    - Platform: '' @ t) \<longleftrightarrow> sublist (personalityTraits q) t"
  by (cases q; simp add: chew)+

lemma long_line:
  "\<not> sublist (personalityTraits q)
     ''    - You should reference the device status if relevant (e.g., if battery is low, suggest saving energy).''"
  by (cases q; simp add: chew)

lemma power_line:
  "sublist (personalityTraits q)
     (''    - Power: '' @ powerText js ctx @ '' '' @
        (if isCharging ctx then ''(Charging)'' else ''(Discharging)'')) \<longleftrightarrow>
   (\<exists>b. batteryLevel ctx = Some b \<and> sublist (personalityTraits q) (toFixed0 js (mul100 js b)))"
  by (cases q; cases "batteryLevel ctx";
      simp add: powerText_def chew sublist_sep sublist_sep2 sublist_end)

lemma location_line:
  "sublist (personalityTraits q) (''    '' @ locationText js ctx) \<longleftrightarrow>
   (\<exists>g. geolocation ctx = Some g \<and>
      (sublist (personalityTraits q) (toStr js (lat g)) \<or>
       sublist (personalityTraits q) (toStr js (lng g))))"
  by (cases q; cases "geolocation ctx";
      simp add: locationText_def chew sublist_sep3)

lemmas line_rules =
  tone_line [simplified] labelled_line [simplified] long_line [simplified]
  power_line [simplified] location_line [simplified]

lemma fragment_occurrence:
  "sublist (personalityTraits q) (getSystemInstruction js ctx st) \<longleftrightarrow>
     q = personality st \<or> (\<exists>t\<in>set (renderedFields js ctx). sublist (personalityTraits q) t)"
  unfolding instruction_lines sublist_lines [OF traits_facts(1,2)]
  by (cases "batteryLevel ctx"; cases "geolocation ctx")
     (auto simp: line_rules traits_short renderedFields_def)

lemma instruction_split:
  "getSystemInstruction js ctx st =
     (instructionHead @ personalityTraits (personality st) @
      ''\<newline>    - Core Directive: Observe, Interpret, Suggest, Execute.\<newline>'' @
      ''\<newline>    Current Environmental Context:\<newline>'' @
      ''    - Time: '' @ currentTime ctx @ ''\<newline>'' @
      ''    - Connection: '' @ (if isOnline ctx then ''Online'' else ''Offline'')) @
     (''\<newline>    - Power: '' @ powerText js ctx @ '' '' @
        (if isCharging ctx then ''(Charging)'' else ''(Discharging)'') @ ''\<newline>'') @
     (''    - Platform: '' @ platform ctx @ ''\<newline>    '' @ locationText js ctx @ instructionTail)"
  by (simp add: getSystemInstruction_def contextBlock_def)

section \<open>The prompt assembler\<close>

text \<open>
  C3. For every history, the request is built from the last six transcript entries
  only: the window has at most six entries, the request equals the request built from
  that window alone, its text part renders exactly the entries of the window, and two
  histories with the same last six entries give the same request, whatever came before.
\<close>

theorem context_window_last_six:
  "length (recentHistory history) \<le> 6 \<and>
   recentHistory history = drop (length history - 6) history \<and>
   buildRequest js history currentPrompt images ctx st =
     buildRequest js (drop (length history - 6) history) currentPrompt images ctx st \<and>
   (\<exists>req. buildRequest js history currentPrompt images ctx st = Inr req \<and>
      hd (parts req) =
        TextPart (concat (map renderLine (drop (length history - 6) history)) @
                  ''\<newline>User: '' @ currentPrompt)) \<and>
   (drop (length history - 6) history = drop (length history' - 6) history' \<longrightarrow>
      buildRequest js history currentPrompt images ctx st =
        buildRequest js history' currentPrompt images ctx st)"
proof (intro conjI impI)
  show "length (recentHistory history) \<le> 6" by (simp add: recentHistory_drop)
  show "recentHistory history = drop (length history - 6) history" by (rule recentHistory_drop)
  show "buildRequest js history currentPrompt images ctx st =
     buildRequest js (drop (length history - 6) history) currentPrompt images ctx st"
    unfolding buildRequest_def using fullPrompt_recent [of history currentPrompt] by simp
  show "\<exists>req. buildRequest js history currentPrompt images ctx st = Inr req \<and>
      hd (parts req) =
        TextPart (concat (map renderLine (drop (length history - 6) history)) @
                  ''\<newline>User: '' @ currentPrompt)"
    using buildRequest_total [of js history currentPrompt images ctx st]
    by (auto simp: fullPrompt_def conversationContext_concat)
  assume "drop (length history - 6) history = drop (length history' - 6) history'"
  then have "fullPrompt history currentPrompt = fullPrompt history' currentPrompt"
    using fullPrompt_recent [of history currentPrompt] fullPrompt_recent [of history' currentPrompt]
    by simp
  then show "buildRequest js history currentPrompt images ctx st =
        buildRequest js history' currentPrompt images ctx st"
    by (simp add: buildRequest_def)
qed

theorem context_window_last_six_witness:
  "drop (length h6 - 6) h6 = drop (length (msg User ''a'' # h6) - 6) (msg User ''a'' # h6) \<and>
   (buildRequest js0 h6 ''h'' [] ctx0 DEFAULT_SETTINGS ) =
    buildRequest js0 (msg User ''a'' # h6) ''h'' [] ctx0 DEFAULT_SETTINGS"
proof -
  have h: "drop (length h6 - 6) h6 = drop (length (msg User ''a'' # h6) - 6) (msg User ''a'' # h6)"
    by (simp add: h6_def)
  show ?thesis
    using h context_window_last_six [of h6 js0 "''h''" "[]" ctx0 DEFAULT_SETTINGS "msg User ''a'' # h6"]
    by blast
qed

text \<open>
  C4 (as amended). The text part of the request is the rendered window, one line
  \<open>User: <text>\<close> for an entry of the user and one line \<open>Orion: <text>\<close> for an entry
  of the assistant, each ended by a line break, followed by an empty line, the label
  \<open>User: \<close> and the new user text. For the empty history and the text \<open>status?\<close> it is
  a line break followed by \<open>User: status?\<close>.
\<close>

theorem text_part_rendering:
  "fullPrompt history p =
     concat (map (\<lambda>m. (if sender m = User then ''User'' else ''Orion'') @ '': '' @ text_msg m @ ''\<newline>'')
               (drop (length history - 6) history)) @
     ''\<newline>User: '' @ p \<and>
   (\<exists>req. buildRequest js history p images ctx st = Inr req \<and>
          hd (parts req) = TextPart (fullPrompt history p)) \<and>
   fullPrompt [] ''status?'' = ''\<newline>User: status?'' \<and>
   suffix ''User: status?'' (fullPrompt [] ''status?'')"
proof (intro conjI)
  have "renderLine = (\<lambda>m. (if sender m = User then ''User'' else ''Orion'') @ '': '' @ text_msg m @ ''\<newline>'')"
    by (rule ext) (simp add: renderLine_def)
  then show "fullPrompt history p =
     concat (map (\<lambda>m. (if sender m = User then ''User'' else ''Orion'') @ '': '' @ text_msg m @ ''\<newline>'')
               (drop (length history - 6) history)) @
     ''\<newline>User: '' @ p"
    by (simp add: fullPrompt_def conversationContext_concat)
  show "\<exists>req. buildRequest js history p images ctx st = Inr req \<and>
          hd (parts req) = TextPart (fullPrompt history p)"
    using buildRequest_total [of js history p images ctx st] by auto
  have e: "fullPrompt [] ''status?'' = ''\<newline>User: status?''"
    by (simp add: fullPrompt_def conversationContext_concat)
  show "fullPrompt [] ''status?'' = ''\<newline>User: status?''" by (rule e)
  have "''\<newline>User: status?'' = ''\<newline>'' @ ''User: status?''" by simp
  then show "suffix ''User: status?'' (fullPrompt [] ''status?'')"
    unfolding e suffix_def by blast
qed

text \<open>
  C4 as stated labels the assistant's lines \<open>Assistant\<close>. The code labels them
  \<open>Orion\<close>: in the text part for a history of one user entry and one assistant entry
  the word \<open>Assistant\<close> does not occur.
\<close>

theorem text_part_labels_counterexample:
  "fullPrompt [msg User ''hello'', msg Orion ''hi''] ''x'' =
     ''User: hello\<newline>Orion: hi\<newline>\<newline>User: x'' \<and>
   \<not> sublist ''Assistant'' (fullPrompt [msg User ''hello'', msg Orion ''hi''] ''x'')"
  by (simp add: fullPrompt_def conversationContext_def recentHistory_def slice_js_def
      renderLine_def msg_def sublist_code(3))

text \<open>
  C5. An attachment \<open>scheme:mime;base64,payload\<close>, in which scheme and MIME type have
  no colon, semicolon or comma, the MIME type is not empty and the payload has no
  comma, gives an inline part with that MIME type and that payload; so does the
  example of the specification. When no colon stands before the first semicolon, or
  the MIME type is empty, the MIME type is \<open>image/png\<close>. The image parts follow the text
  part in the order of the attachments.
\<close>

theorem image_part_parsing:
  "(CHR '':'' \<notin> set scheme \<and> CHR '';'' \<notin> set scheme \<and> CHR '','' \<notin> set scheme \<and>
    CHR '':'' \<notin> set mime \<and> CHR '';'' \<notin> set mime \<and> CHR '','' \<notin> set mime \<and> mime \<noteq> [] \<and>
    CHR '','' \<notin> set payload \<longrightarrow>
      inlinePart (scheme @ '':'' @ mime @ '';base64,'' @ payload) =
        Inr (InlineDataPart \<lparr>mimeType = mime, data = Some payload\<rparr>)) \<and>
   inlinePart ''data:image/jpeg;base64,QUJD'' =
     Inr (InlineDataPart \<lparr>mimeType = ''image/jpeg'', data = Some ''QUJD''\<rparr>) \<and>
   (CHR '':'' \<notin> set (takeWhile (\<lambda>c. c \<noteq> CHR '';'') base64) \<longrightarrow>
      (\<exists>d. inlinePart base64 = Inr (InlineDataPart \<lparr>mimeType = ''image/png'', data = d\<rparr>))) \<and>
   inlinePart ''data:;base64,QUJD'' =
     Inr (InlineDataPart \<lparr>mimeType = ''image/png'', data = Some ''QUJD''\<rparr>) \<and>
   (\<exists>ps. buildRequest js history p images ctx st =
           Inr \<lparr>model = ''gemini-2.5-flash-preview'',
                parts = TextPart (fullPrompt history p) # ps,
                systemInstruction = getSystemInstruction js ctx st\<rparr> \<and>
         length ps = length images \<and>
         (\<forall>i < length images. inlinePart (images ! i) = Inr (ps ! i)))"
proof (intro conjI impI)
  assume "CHR '':'' \<notin> set scheme \<and> CHR '';'' \<notin> set scheme \<and> CHR '','' \<notin> set scheme \<and>
    CHR '':'' \<notin> set mime \<and> CHR '';'' \<notin> set mime \<and> CHR '','' \<notin> set mime \<and> mime \<noteq> [] \<and>
    CHR '','' \<notin> set payload"
  then show "inlinePart (scheme @ '':'' @ mime @ '';base64,'' @ payload) =
        Inr (InlineDataPart \<lparr>mimeType = mime, data = Some payload\<rparr>)"
    by (intro inlinePart_wellformed) simp_all
next
  show "inlinePart ''data:image/jpeg;base64,QUJD'' =
     Inr (InlineDataPart \<lparr>mimeType = ''image/jpeg'', data = Some ''QUJD''\<rparr>)"
    using inlinePart_wellformed [of "''data''" "''image/jpeg''" "''QUJD''"] by simp
next
  assume "CHR '':'' \<notin> set (takeWhile (\<lambda>c. c \<noteq> CHR '';'') base64)"
  then show "\<exists>d. inlinePart base64 = Inr (InlineDataPart \<lparr>mimeType = ''image/png'', data = d\<rparr>)"
    using inlinePart_no_colon by blast
next
  show "inlinePart ''data:;base64,QUJD'' =
     Inr (InlineDataPart \<lparr>mimeType = ''image/png'', data = Some ''QUJD''\<rparr>)"
    by (simp add: inlinePart_total index_js_def falsy_def)
next
  show "\<exists>ps. buildRequest js history p images ctx st =
           Inr \<lparr>model = ''gemini-2.5-flash-preview'',
                parts = TextPart (fullPrompt history p) # ps,
                systemInstruction = getSystemInstruction js ctx st\<rparr> \<and>
         length ps = length images \<and>
         (\<forall>i < length images. inlinePart (images ! i) = Inr (ps ! i))"
    by (rule buildRequest_total)
qed

theorem image_part_parsing_witness:
  "inlinePart ''data:image/webp;base64,AAAA'' =
     Inr (InlineDataPart \<lparr>mimeType = ''image/webp'', data = Some ''AAAA''\<rparr>) \<and>
   (\<exists>d. inlinePart ''QUJD'' = Inr (InlineDataPart \<lparr>mimeType = ''image/png'', data = d\<rparr>)) \<and>
   (\<exists>ps. buildRequest js0 [] ''x'' [''data:image/webp;base64,AAAA'', ''QUJD''] ctx0 DEFAULT_SETTINGS =
           Inr \<lparr>model = ''gemini-2.5-flash-preview'',
                parts = TextPart (fullPrompt [] ''x'') # ps,
                systemInstruction = getSystemInstruction js0 ctx0 DEFAULT_SETTINGS\<rparr> \<and>
         inlinePart ''data:image/webp;base64,AAAA'' = Inr (ps ! 0) \<and>
         inlinePart ''QUJD'' = Inr (ps ! 1))"
proof -
  note t = image_part_parsing [of "''data''" "''image/webp''" "''AAAA''" "''QUJD''" js0 "[]" "''x''"
      "[''data:image/webp;base64,AAAA'', ''QUJD'']" ctx0 DEFAULT_SETTINGS]
  have a: "inlinePart ''data:image/webp;base64,AAAA'' =
     Inr (InlineDataPart \<lparr>mimeType = ''image/webp'', data = Some ''AAAA''\<rparr>)"
    using t by simp
  have b: "\<exists>d. inlinePart ''QUJD'' = Inr (InlineDataPart \<lparr>mimeType = ''image/png'', data = d\<rparr>)"
    using t by simp
  from t obtain ps where ps:
    "buildRequest js0 [] ''x'' [''data:image/webp;base64,AAAA'', ''QUJD''] ctx0 DEFAULT_SETTINGS =
           Inr \<lparr>model = ''gemini-2.5-flash-preview'',
                parts = TextPart (fullPrompt [] ''x'') # ps,
                systemInstruction = getSystemInstruction js0 ctx0 DEFAULT_SETTINGS\<rparr>"
    "\<forall>i < length [''data:image/webp;base64,AAAA'', ''QUJD''].
        inlinePart ([''data:image/webp;base64,AAAA'', ''QUJD''] ! i) = Inr (ps ! i)"
    by blast
  have "inlinePart ''data:image/webp;base64,AAAA'' = Inr (ps ! 0)"
    using ps(2) [rule_format, of 0] by simp
  moreover have "inlinePart ''QUJD'' = Inr (ps ! 1)"
    using ps(2) [rule_format, of 1] by simp
  ultimately show ?thesis using a b ps(1) by blast
qed

text \<open>
  C10. Building the image part of an attachment never throws, whatever the string:
  without a comma the payload is absent, without a colon before the first semicolon
  the MIME type is \<open>image/png\<close>, and the request is assembled with one part per
  attachment after the text part.
\<close>

theorem malformed_attachment_degrades:
  "(\<exists>d. inlinePart base64 = Inr (InlineDataPart d)) \<and>
   (CHR '','' \<notin> set base64 \<longrightarrow>
      (\<exists>m. inlinePart base64 = Inr (InlineDataPart \<lparr>mimeType = m, data = None\<rparr>))) \<and>
   (CHR '':'' \<notin> set (takeWhile (\<lambda>c. c \<noteq> CHR '';'') base64) \<longrightarrow>
      (\<exists>d. inlinePart base64 = Inr (InlineDataPart \<lparr>mimeType = ''image/png'', data = d\<rparr>))) \<and>
   (\<exists>req. buildRequest js history p images ctx st = Inr req \<and>
      length (parts req) = Suc (length images))"
proof (intro conjI impI)
  show "\<exists>d. inlinePart base64 = Inr (InlineDataPart d)"
    using inlinePart_total [of base64] by blast
  show "\<exists>req. buildRequest js history p images ctx st = Inr req \<and>
      length (parts req) = Suc (length images)"
    using buildRequest_total [of js history p images ctx st] by auto
next
  assume "CHR '','' \<notin> set base64"
  then show "\<exists>m. inlinePart base64 = Inr (InlineDataPart \<lparr>mimeType = m, data = None\<rparr>)"
    by (rule inlinePart_no_comma)
next
  assume "CHR '':'' \<notin> set (takeWhile (\<lambda>c. c \<noteq> CHR '';'') base64)"
  then show "\<exists>d. inlinePart base64 = Inr (InlineDataPart \<lparr>mimeType = ''image/png'', data = d\<rparr>)"
    using inlinePart_no_colon by blast
qed

theorem malformed_attachment_degrades_witness:
  "CHR '','' \<notin> set ''not a data URI'' \<and>
   CHR '':'' \<notin> set (takeWhile (\<lambda>c. c \<noteq> CHR '';'') ''not a data URI'') \<and>
   inlinePart ''not a data URI'' = Inr (InlineDataPart \<lparr>mimeType = ''image/png'', data = None\<rparr>)"
proof -
  note t = malformed_attachment_degrades [of "''not a data URI''" js0 "[]" "''x''" "[]" ctx0 DEFAULT_SETTINGS]
  have c: "CHR '','' \<notin> set ''not a data URI''" by simp
  have k: "CHR '':'' \<notin> set (takeWhile (\<lambda>c. c \<noteq> CHR '';'') ''not a data URI'')" by simp
  from t c obtain m where m:
    "inlinePart ''not a data URI'' = Inr (InlineDataPart \<lparr>mimeType = m, data = None\<rparr>)"
    by blast
  from t k obtain d where d:
    "inlinePart ''not a data URI'' = Inr (InlineDataPart \<lparr>mimeType = ''image/png'', data = d\<rparr>)"
    by blast
  from m d have "m = ''image/png''" by simp
  with m c k show ?thesis by blast
qed

section \<open>The system instruction\<close>

text \<open>
  C6 (as amended). The instruction depends on the settings through the personality
  only. When the position is absent the Location entry is omitted: the instruction
  ends with the Platform line, the indentation of the empty slot and the fixed closing
  text; when it is present the Location line stands there. When the battery level is
  absent the Power line is still rendered, with \<open>Unknown\<close> in place of the
  percentage; when it is present the line carries the percentage.
\<close>

theorem instruction_optional_fields:
  "getSystemInstruction js ctx (st\<lparr>visualIntensity := v, voiceEnabled := b\<rparr>) =
     getSystemInstruction js ctx st \<and>
   (geolocation ctx = None \<longrightarrow>
      suffix (''    - Platform: '' @ platform ctx @ ''\<newline>    '' @ instructionTail)
        (getSystemInstruction js ctx st)) \<and>
   (\<forall>g. geolocation ctx = Some g \<longrightarrow>
      suffix (''    - Platform: '' @ platform ctx @ ''\<newline>    - Location: Lat '' @
                toStr js (lat g) @ '', Lng '' @ toStr js (lng g) @ instructionTail)
        (getSystemInstruction js ctx st)) \<and>
   (batteryLevel ctx = None \<longrightarrow>
      sublist (''\<newline>    - Power: Unknown '' @
                 (if isCharging ctx then ''(Charging)'' else ''(Discharging)'') @ ''\<newline>'')
        (getSystemInstruction js ctx st)) \<and>
   (\<forall>l. batteryLevel ctx = Some l \<longrightarrow>
      sublist (''\<newline>    - Power: '' @ toFixed0 js (mul100 js l) @ ''% '' @
                 (if isCharging ctx then ''(Charging)'' else ''(Discharging)'') @ ''\<newline>'')
        (getSystemInstruction js ctx st))"
proof (intro conjI impI allI)
  show "getSystemInstruction js ctx (st\<lparr>visualIntensity := v, voiceEnabled := b\<rparr>) =
     getSystemInstruction js ctx st"
    by (simp add: getSystemInstruction_def)
next
  assume "geolocation ctx = None"
  then have "locationText js ctx = []" by (simp add: locationText_def)
  then show "suffix (''    - Platform: '' @ platform ctx @ ''\<newline>    '' @ instructionTail)
        (getSystemInstruction js ctx st)"
    unfolding instruction_split suffix_def by auto
next
  fix g assume "geolocation ctx = Some g"
  then have "locationText js ctx = ''- Location: Lat '' @ toStr js (lat g) @ '', Lng '' @ toStr js (lng g)"
    by (simp add: locationText_def)
  then show "suffix (''    - Platform: '' @ platform ctx @ ''\<newline>    - Location: Lat '' @
                toStr js (lat g) @ '', Lng '' @ toStr js (lng g) @ instructionTail)
        (getSystemInstruction js ctx st)"
    unfolding instruction_split suffix_def by auto
next
  assume "batteryLevel ctx = None"
  then have "powerText js ctx = ''Unknown''" by (simp add: powerText_def)
  then have "''\<newline>    - Power: Unknown '' @
                 (if isCharging ctx then ''(Charging)'' else ''(Discharging)'') @ ''\<newline>'' =
      ''\<newline>    - Power: '' @ powerText js ctx @ '' '' @
        (if isCharging ctx then ''(Charging)'' else ''(Discharging)'') @ ''\<newline>''"
    by simp
  then show "sublist (''\<newline>    - Power: Unknown '' @
                 (if isCharging ctx then ''(Charging)'' else ''(Discharging)'') @ ''\<newline>'')
        (getSystemInstruction js ctx st)"
    unfolding instruction_split by (simp only: sublist_appendI)
next
  fix l assume "batteryLevel ctx = Some l"
  then have "powerText js ctx = toFixed0 js (mul100 js l) @ ''%''" by (simp add: powerText_def)
  then have "''\<newline>    - Power: '' @ toFixed0 js (mul100 js l) @ ''% '' @
                 (if isCharging ctx then ''(Charging)'' else ''(Discharging)'') @ ''\<newline>'' =
      ''\<newline>    - Power: '' @ powerText js ctx @ '' '' @
        (if isCharging ctx then ''(Charging)'' else ''(Discharging)'') @ ''\<newline>''"
    by simp
  then show "sublist (''\<newline>    - Power: '' @ toFixed0 js (mul100 js l) @ ''% '' @
                 (if isCharging ctx then ''(Charging)'' else ''(Discharging)'') @ ''\<newline>'')
        (getSystemInstruction js ctx st)"
    unfolding instruction_split by (simp only: sublist_appendI)
qed

theorem instruction_optional_fields_witness:
  "geolocation ctx0 = None \<and> batteryLevel ctx0 = None \<and>
   suffix (''    - Platform: Win32\<newline>    '' @ instructionTail)
     (getSystemInstruction js0 ctx0 DEFAULT_SETTINGS) \<and>
   sublist ''\<newline>    - Power: Unknown (Discharging)\<newline>''
     (getSystemInstruction js0 ctx0 DEFAULT_SETTINGS) \<and>
   geolocation ctxFull = Some \<lparr>lat = 37, lng = 122\<rparr> \<and> batteryLevel ctxFull = Some 1 \<and>
   suffix (''    - Platform: Win32\<newline>    - Location: Lat 37, Lng 122'' @ instructionTail)
     (getSystemInstruction js0 ctxFull DEFAULT_SETTINGS) \<and>
   sublist ''\<newline>    - Power: 100% (Discharging)\<newline>''
     (getSystemInstruction js0 ctxFull DEFAULT_SETTINGS)"
proof -
  have a: "geolocation ctx0 = None" "batteryLevel ctx0 = None" "platform ctx0 = ''Win32''"
    "\<not> isCharging ctx0"
    by (simp_all add: ctx0_def)
  have b: "geolocation ctxFull = Some \<lparr>lat = 37, lng = 122\<rparr>" "batteryLevel ctxFull = Some 1"
    "platform ctxFull = ''Win32''" "\<not> isCharging ctxFull"
    by (simp_all add: ctxFull_def ctx0_def)
  have n: "toStr js0 37 = ''37''" "toStr js0 122 = ''122''" "toFixed0 js0 (mul100 js0 1) = ''100''"
    by (simp_all add: js0_def) code_simp+
  note t0 = instruction_optional_fields [where js = js0 and ctx = ctx0 and st = DEFAULT_SETTINGS]
  note t1 = instruction_optional_fields [where js = js0 and ctx = ctxFull and st = DEFAULT_SETTINGS]
  have "suffix (''    - Platform: Win32\<newline>    '' @ instructionTail)
     (getSystemInstruction js0 ctx0 DEFAULT_SETTINGS)"
    using t0 a by simp
  moreover have "sublist ''\<newline>    - Power: Unknown (Discharging)\<newline>''
     (getSystemInstruction js0 ctx0 DEFAULT_SETTINGS)"
    using t0 a by simp
  moreover have "suffix (''    - Platform: Win32\<newline>    - Location: Lat 37, Lng 122'' @ instructionTail)
     (getSystemInstruction js0 ctxFull DEFAULT_SETTINGS)"
    using t1 b n by simp
  moreover have "sublist ''\<newline>    - Power: 100% (Discharging)\<newline>''
     (getSystemInstruction js0 ctxFull DEFAULT_SETTINGS)"
    using t1 b n by simp
  ultimately show ?thesis using a b by blast
qed

text \<open>
  C6 as stated has every absent optional field omitted. For a context without a
  battery level the instruction contains the Power entry with the placeholder
  \<open>Unknown\<close>.
\<close>

theorem absent_battery_placeholder_counterexample:
  "batteryLevel ctx0 = None \<and>
   sublist ''- Power: Unknown (Discharging)'' (getSystemInstruction js0 ctx0 DEFAULT_SETTINGS)"
proof -
  have a: "batteryLevel ctx0 = None" "\<not> isCharging ctx0" by (simp_all add: ctx0_def)
  then have "powerText js0 ctx0 = ''Unknown''" by (simp add: powerText_def)
  then have "getSystemInstruction js0 ctx0 DEFAULT_SETTINGS =
      (instructionHead @ personalityTraits (personality DEFAULT_SETTINGS) @
      ''\<newline>    - Core Directive: Observe, Interpret, Suggest, Execute.\<newline>'' @
      ''\<newline>    Current Environmental Context:\<newline>'' @
      ''    - Time: '' @ currentTime ctx0 @ ''\<newline>'' @
      ''    - Connection: '' @ (if isOnline ctx0 then ''Online'' else ''Offline'') @ ''\<newline>    '') @
      ''- Power: Unknown (Discharging)'' @
      (''\<newline>    - Platform: '' @ platform ctx0 @ ''\<newline>    '' @ locationText js0 ctx0 @ instructionTail)"
    using a(2) by (simp add: instruction_split)
  then have "sublist ''- Power: Unknown (Discharging)'' (getSystemInstruction js0 ctx0 DEFAULT_SETTINGS)"
    by (simp only: sublist_appendI)
  with a(1) show ?thesis by simp
qed

text \<open>
  C8. For every personality, the instruction contains the tone fragment selected by
  that personality, and it contains exactly that one of the three fragments and
  neither of the other two: for every device context whose interpolated values are
  each shorter than the shortest fragment (96 characters), as the clock string, the
  platform name, a percentage and coordinates are, and more generally for every
  device context none of whose interpolated values contains another fragment. The
  template itself contributes the selected fragment only: another fragment occurs
  in the instruction exactly when an interpolated value contains it.
\<close>

theorem tone_fragment_selected:
  "sublist (personalityTraits (personality st)) (getSystemInstruction js ctx st) \<and>
   (\<forall>q. q \<noteq> personality st \<longrightarrow>
      (sublist (personalityTraits q) (getSystemInstruction js ctx st) \<longleftrightarrow>
       (\<exists>t\<in>set (renderedFields js ctx). sublist (personalityTraits q) t))) \<and>
   ((\<forall>q. q \<noteq> personality st \<longrightarrow>
        (\<forall>t\<in>set (renderedFields js ctx). \<not> sublist (personalityTraits q) t)) \<longrightarrow>
    (\<forall>q. sublist (personalityTraits q) (getSystemInstruction js ctx st) \<longleftrightarrow> q = personality st)) \<and>
   ((\<forall>t\<in>set (renderedFields js ctx). length t < 96) \<longrightarrow>
    (\<forall>q. sublist (personalityTraits q) (getSystemInstruction js ctx st) \<longleftrightarrow> q = personality st))"
proof (intro conjI)
  show "sublist (personalityTraits (personality st)) (getSystemInstruction js ctx st)"
    unfolding fragment_occurrence by simp
  show "\<forall>q. q \<noteq> personality st \<longrightarrow>
      (sublist (personalityTraits q) (getSystemInstruction js ctx st) \<longleftrightarrow>
       (\<exists>t\<in>set (renderedFields js ctx). sublist (personalityTraits q) t))"
    unfolding fragment_occurrence by blast
  show "(\<forall>q. q \<noteq> personality st \<longrightarrow>
        (\<forall>t\<in>set (renderedFields js ctx). \<not> sublist (personalityTraits q) t)) \<longrightarrow>
    (\<forall>q. sublist (personalityTraits q) (getSystemInstruction js ctx st) \<longleftrightarrow> q = personality st)"
    unfolding fragment_occurrence by blast
  show "(\<forall>t\<in>set (renderedFields js ctx). length t < 96) \<longrightarrow>
    (\<forall>q. sublist (personalityTraits q) (getSystemInstruction js ctx st) \<longleftrightarrow> q = personality st)"
  proof (intro impI allI)
    fix q
    assume short: "\<forall>t\<in>set (renderedFields js ctx). length t < 96"
    have "\<not> (\<exists>t\<in>set (renderedFields js ctx). sublist (personalityTraits q) t)"
      using short traits_short [of _ q] by blast
    then show "sublist (personalityTraits q) (getSystemInstruction js ctx st) \<longleftrightarrow> q = personality st"
      unfolding fragment_occurrence by blast
  qed
qed

theorem tone_fragment_selected_witness:
  "personality DEFAULT_SETTINGS = professional \<and>
   renderedFields js0 ctx0 = [''11/2/2026, 7:17:00 AM'', ''Win32''] \<and>
   length ''11/2/2026, 7:17:00 AM'' < (96 :: nat) \<and> length ''Win32'' < (96 :: nat) \<and>
   sublist (personalityTraits professional) (getSystemInstruction js0 ctx0 DEFAULT_SETTINGS) \<and>
   \<not> sublist (personalityTraits friendly) (getSystemInstruction js0 ctx0 DEFAULT_SETTINGS) \<and>
   \<not> sublist (personalityTraits direct) (getSystemInstruction js0 ctx0 DEFAULT_SETTINGS)"
proof -
  have p: "personality DEFAULT_SETTINGS = professional"
    by (simp add: DEFAULT_SETTINGS_def)
  have f: "renderedFields js0 ctx0 = [''11/2/2026, 7:17:00 AM'', ''Win32'']"
    by (simp add: renderedFields_def ctx0_def)
  have l: "length ''11/2/2026, 7:17:00 AM'' < (96 :: nat)" "length ''Win32'' < (96 :: nat)"
    by simp_all
  have short: "\<forall>t\<in>set (renderedFields js0 ctx0). length t < 96"
    unfolding f by simp
  have h: "\<forall>q. q \<noteq> personality DEFAULT_SETTINGS \<longrightarrow>
        (\<forall>t\<in>set (renderedFields js0 ctx0). \<not> sublist (personalityTraits q) t)"
    unfolding f by (simp add: traits_short)
  note t = tone_fragment_selected [of DEFAULT_SETTINGS js0 ctx0]
  have "\<forall>q. sublist (personalityTraits q) (getSystemInstruction js0 ctx0 DEFAULT_SETTINGS) \<longleftrightarrow>
        q = personality DEFAULT_SETTINGS"
    using short t by blast
  moreover have "\<forall>q. sublist (personalityTraits q) (getSystemInstruction js0 ctx0 DEFAULT_SETTINGS) \<longleftrightarrow>
        q = personality DEFAULT_SETTINGS"
    using h t by blast
  ultimately have a: "sublist (personalityTraits q) (getSystemInstruction js0 ctx0 DEFAULT_SETTINGS) \<longleftrightarrow>
        q = professional" for q
    unfolding p by blast
  have "sublist (personalityTraits professional) (getSystemInstruction js0 ctx0 DEFAULT_SETTINGS)"
    unfolding a by (rule refl)
  moreover have "\<not> sublist (personalityTraits friendly) (getSystemInstruction js0 ctx0 DEFAULT_SETTINGS)"
    unfolding a by (rule Personality.distinct)
  moreover have "\<not> sublist (personalityTraits direct) (getSystemInstruction js0 ctx0 DEFAULT_SETTINGS)"
    unfolding a by (rule Personality.distinct)
  ultimately show ?thesis using p f l by blast
qed

section \<open>The response gateway\<close>

text \<open>
  C7. Without a credential (\<open>API_KEY\<close> undefined or empty) the service throws before
  any request is sent. With a credential, when the remote call returns a response
  whose text is undefined or empty, the service returns the fallback sentence, having
  sent exactly the one request.
\<close>

theorem gateway_credential_and_fallback:
  "(apiKey = None \<or> apiKey = Some [] \<longrightarrow>
      generateOrionResponse js apiKey generateContent history p images ctx st =
        (Inl ApiKeyMissing, [])) \<and>
   (apiKey = Some k \<and> k \<noteq> [] \<and> buildRequest js history p images ctx st = Inr req \<and>
    generateContent req = Inr t \<and> (t = None \<or> t = Some []) \<longrightarrow>
      generateOrionResponse js apiKey generateContent history p images ctx st =
        (Inr ''Systems unresponsive. Please try again.'', [req]))"
  by (auto simp: generateOrionResponse_def falsy_def fallbackText_def)

theorem gateway_credential_and_fallback_witness:
  "generateOrionResponse js0 None (\<lambda>r. Inr (Some []) :: unit + string option) [] ''x'' [] ctx0 DEFAULT_SETTINGS =
     (Inl ApiKeyMissing, []) \<and>
   buildRequest js0 [] ''x'' [] ctx0 DEFAULT_SETTINGS =
     Inr \<lparr>model = ''gemini-2.5-flash-preview'', parts = [TextPart (fullPrompt [] ''x'')],
          systemInstruction = getSystemInstruction js0 ctx0 DEFAULT_SETTINGS\<rparr> \<and>
   generateOrionResponse js0 (Some ''key'') (\<lambda>r. Inr (Some []) :: unit + string option) [] ''x'' [] ctx0
       DEFAULT_SETTINGS =
     (Inr ''Systems unresponsive. Please try again.'',
      [\<lparr>model = ''gemini-2.5-flash-preview'', parts = [TextPart (fullPrompt [] ''x'')],
         systemInstruction = getSystemInstruction js0 ctx0 DEFAULT_SETTINGS\<rparr>])"
proof -
  have b: "buildRequest js0 [] ''x'' [] ctx0 DEFAULT_SETTINGS =
     Inr \<lparr>model = ''gemini-2.5-flash-preview'', parts = [TextPart (fullPrompt [] ''x'')],
          systemInstruction = getSystemInstruction js0 ctx0 DEFAULT_SETTINGS\<rparr>"
    by (simp add: buildRequest_def)
  show ?thesis
    using b
      gateway_credential_and_fallback [of None js0 "\<lambda>r. Inr (Some []) :: unit + string option" "[]" "''x''" "[]"
        ctx0 DEFAULT_SETTINGS]
      gateway_credential_and_fallback [of "Some ''key''" js0 "\<lambda>r. Inr (Some []) :: unit + string option" "[]"
        "''x''" "[]" ctx0 DEFAULT_SETTINGS "''key''"
        "\<lparr>model = ''gemini-2.5-flash-preview'', parts = [TextPart (fullPrompt [] ''x'')],
          systemInstruction = getSystemInstruction js0 ctx0 DEFAULT_SETTINGS\<rparr>" "Some []"]
    by simp
qed

section \<open>The session state machine\<close>

text \<open>
  C1. In every state the component can reach: the send handler acts (is accepted)
  exactly when its guard does not reject; an accepted send was made in one of the
  states Idle, Responding, Error, with a non-empty text or a non-empty image list;
  while Thinking, or with an empty text and no image, the handler returns the state
  as it was and sends nothing; an accepted send appends exactly one message of the
  user carrying the text and the images, clears the input and the images and sets
  Thinking, and the service is called with the values of the state before, its
  outcome being applied to the state already in Thinking. (The guard trims the text:
  a text of white space only, without images, is rejected too. The guard itself
  excludes Thinking only; no handler ever assigns Listening, so no reachable state
  is in it.)
\<close>

theorem submit_guard_and_effect:
  "reachable s \<Longrightarrow>
   (handleSendMessage_sync now s \<noteq> s \<longleftrightarrow> \<not> submitRejected s) \<and>
   (\<not> submitRejected s \<longrightarrow>
      orionState s \<in> {Idle, Responding, Error} \<and> (input s \<noteq> [] \<or> attachedImages s \<noteq> [])) \<and>
   (orionState s = Thinking \<or> (input s = [] \<and> attachedImages s = []) \<longrightarrow>
      submitRejected s \<and> handleSendMessage_sync now s = s \<and>
      handleSendMessage js apiKey generateContent now s = (s, [])) \<and>
   (\<not> submitRejected s \<longrightarrow>
      handleSendMessage_sync now s =
        s\<lparr>messages := messages s @
             [\<lparr>id_msg = toString_nat now, text_msg = input s, sender = User, timestamp = now,
               attachments = Some (attachedImages s)\<rparr>],
          input := [], attachedImages := [], orionState := Thinking\<rparr> \<and>
      length (messages (handleSendMessage_sync now s)) = Suc (length (messages s)) \<and>
      handleSendMessage js apiKey generateContent now s =
        (handleSendMessage_settled
           (fst (generateOrionResponse js apiKey generateContent (messages s) (input s)
                   (attachedImages s) (deviceContext s) (settings s)))
           (handleSendMessage_sync now s),
         snd (generateOrionResponse js apiKey generateContent (messages s) (input s)
                (attachedImages s) (deviceContext s) (settings s))))"
proof (intro conjI impI)
  assume r: "reachable s"
  show "handleSendMessage_sync now s \<noteq> s \<longleftrightarrow> \<not> submitRejected s"
    by (rule submit_accepted_iff)
  {
    assume a: "\<not> submitRejected s"
    have "orionState s \<noteq> Listening" using r by (rule reachable_not_Listening)
    moreover have "orionState s \<noteq> Thinking" using a by (simp add: submitRejected_def)
    ultimately show "orionState s \<in> {Idle, Responding, Error}"
      by (cases "orionState s") simp_all
    show "input s \<noteq> [] \<or> attachedImages s \<noteq> []"
      using a by (auto simp: submitRejected_def trim_Nil)
    show "handleSendMessage_sync now s =
        s\<lparr>messages := messages s @
             [\<lparr>id_msg = toString_nat now, text_msg = input s, sender = User, timestamp = now,
               attachments = Some (attachedImages s)\<rparr>],
          input := [], attachedImages := [], orionState := Thinking\<rparr>"
      using a by (simp add: handleSendMessage_sync_def newUserMessage_def)
    show "length (messages (handleSendMessage_sync now s)) = Suc (length (messages s))"
      using a by (simp add: handleSendMessage_sync_def)
    show "handleSendMessage js apiKey generateContent now s =
        (handleSendMessage_settled
           (fst (generateOrionResponse js apiKey generateContent (messages s) (input s)
                   (attachedImages s) (deviceContext s) (settings s)))
           (handleSendMessage_sync now s),
         snd (generateOrionResponse js apiKey generateContent (messages s) (input s)
                (attachedImages s) (deviceContext s) (settings s)))"
      using a by (simp add: handleSendMessage_def Let_def split_beta)
  }
  {
    assume b: "orionState s = Thinking \<or> (input s = [] \<and> attachedImages s = [])"
    then show rej: "submitRejected s" by (auto simp: submitRejected_def trim_Nil)
    then show "handleSendMessage_sync now s = s" by (simp add: handleSendMessage_sync_def)
    from rej show "handleSendMessage js apiKey generateContent now s = (s, [])"
      by (simp add: handleSendMessage_def)
  }
qed


theorem submit_guard_and_effect_witness:
  "reachable sTyped \<and> \<not> submitRejected sTyped \<and>
   orionState sTyped \<in> {Idle, Responding, Error} \<and>
   handleSendMessage_sync 5 sTyped =
     sTyped\<lparr>messages := messages sTyped @
             [\<lparr>id_msg = toString_nat 5, text_msg = input sTyped, sender = User, timestamp = 5,
               attachments = Some (attachedImages sTyped)\<rparr>],
          input := [], attachedImages := [], orionState := Thinking\<rparr> \<and>
   reachable sBlank \<and> input sBlank = [] \<and> attachedImages sBlank = [] \<and>
   handleSendMessage js0 None (\<lambda>r. Inl ()) 5 sBlank = (sBlank, [])"
proof -
  have r1: "reachable sTyped"
    unfolding sTyped_def by (rule r_input) (rule r_init)
  have a: "\<not> submitRejected sTyped"
    by (simp add: sTyped_def initialState_def submitRejected_def trim_def isWhiteSpace_def)
  have r2: "reachable sBlank"
    unfolding sBlank_def by (rule r_init)
  have b: "input sBlank = [] \<and> attachedImages sBlank = []"
    by (simp add: sBlank_def initialState_def)
  note t1 = submit_guard_and_effect [OF r1, of 5 js0 None "\<lambda>r. Inl ()"]
  note t2 = submit_guard_and_effect [OF r2, of 5 js0 None "\<lambda>r. Inl ()"]
  from t1 a have "orionState sTyped \<in> {Idle, Responding, Error}" by blast
  moreover from t1 a have "handleSendMessage_sync 5 sTyped =
     sTyped\<lparr>messages := messages sTyped @
             [\<lparr>id_msg = toString_nat 5, text_msg = input sTyped, sender = User, timestamp = 5,
               attachments = Some (attachedImages sTyped)\<rparr>],
          input := [], attachedImages := [], orionState := Thinking\<rparr>" by blast
  moreover from t2 b have "handleSendMessage js0 None (\<lambda>r. Inl ()) 5 sBlank = (sBlank, [])" by blast
  ultimately show ?thesis using r1 r2 a b by blast
qed

text \<open>
  C2 (as amended). For every accepted send made while no timer is pending and whose
  service call fails, with nothing else happening in between: the state is Thinking
  after the synchronous part, Error after the failure, and Idle once the timer
  scheduled by the failure has fired; that timer is the only one pending and its
  delay is 3000 ms; from Idle the sequence is Idle, Thinking, Error, Idle. The
  transcript at each of these moments is the transcript before the send followed by
  the one message of the user. The reset callback sets Idle and keeps the transcript
  in whatever state it runs.
\<close>

theorem failed_turn_sequence:
  "\<not> submitRejected s \<and> timers s = [] \<and>
   fst (generateOrionResponse js apiKey generateContent (messages s) (input s) (attachedImages s)
          (deviceContext s) (settings s)) = Inl e \<longrightarrow>
     (let s1 = handleSendMessage_sync now s;
          s2 = fst (handleSendMessage js apiKey generateContent now s);
          s3 = fireTimer 0 later s2
      in map orionState [s, s1, s2, s3] = [orionState s, Thinking, Error, Idle] \<and>
         s2 = handleSendMessage_settled (Inl e) s1 \<and>
         timers s1 = [] \<and> timers s2 = [(3000, ResetIdle)] \<and> timers s3 = [] \<and>
         messages s1 = messages s @ [newUserMessage now s] \<and>
         messages s2 = messages s @ [newUserMessage now s] \<and>
         messages s3 = messages s @ [newUserMessage now s] \<and>
         sender (newUserMessage now s) = User \<and>
         (\<forall>s'. orionState (runTimer later ResetIdle (s' :: 'n AppState)) = Idle \<and>
               messages (runTimer later ResetIdle s') = messages s'))"
proof (intro impI)
  assume h: "\<not> submitRejected s \<and> timers s = [] \<and>
   fst (generateOrionResponse js apiKey generateContent (messages s) (input s) (attachedImages s)
          (deviceContext s) (settings s)) = Inl e"
  let ?s1 = "handleSendMessage_sync now s"
  let ?s2 = "fst (handleSendMessage js apiKey generateContent now s)"
  let ?s3 = "fireTimer 0 later ?s2"
  have s1: "?s1 = s\<lparr>messages := messages s @ [newUserMessage now s], input := [],
                    attachedImages := [], orionState := Thinking\<rparr>"
    using h by (simp add: handleSendMessage_sync_def)
  have s2: "?s2 = handleSendMessage_settled (Inl e) ?s1"
    using h by (simp add: handleSendMessage_def Let_def split_beta)
  have s2': "?s2 = ?s1\<lparr>orionState := Error, timers := [(3000, ResetIdle)]\<rparr>"
    unfolding s2 using h by (simp add: handleSendMessage_settled_def s1)
  have s3: "?s3 = ?s1\<lparr>orionState := Idle, timers := []\<rparr>"
    unfolding s2' by (simp add: fireTimer_def s1)
  show "let s1 = ?s1; s2 = ?s2; s3 = fireTimer 0 later s2
      in map orionState [s, s1, s2, s3] = [orionState s, Thinking, Error, Idle] \<and>
         s2 = handleSendMessage_settled (Inl e) s1 \<and>
         timers s1 = [] \<and> timers s2 = [(3000, ResetIdle)] \<and> timers s3 = [] \<and>
         messages s1 = messages s @ [newUserMessage now s] \<and>
         messages s2 = messages s @ [newUserMessage now s] \<and>
         messages s3 = messages s @ [newUserMessage now s] \<and>
         sender (newUserMessage now s) = User \<and>
         (\<forall>s'. orionState (runTimer later ResetIdle (s' :: 'n AppState)) = Idle \<and>
               messages (runTimer later ResetIdle s') = messages s')"
    unfolding Let_def s3
    unfolding s2'
    unfolding s1
    using h by (simp add: newUserMessage_def handleSendMessage_settled_def)
qed

theorem failed_turn_sequence_witness:
  "\<not> submitRejected sReady \<and> timers sReady = [] \<and>
   fst (generateOrionResponse js0 (Some ''key'') failingCall (messages sReady) (input sReady)
          (attachedImages sReady) (deviceContext sReady) (settings sReady)) = Inl (Raised ()) \<and>
   map orionState
     [sReady, handleSendMessage_sync 2000 sReady,
      fst (handleSendMessage js0 (Some ''key'') failingCall 2000 sReady),
      fireTimer 0 5000 (fst (handleSendMessage js0 (Some ''key'') failingCall 2000 sReady))] =
     [Idle, Thinking, Error, Idle] \<and>
   messages (fireTimer 0 5000 (fst (handleSendMessage js0 (Some ''key'') failingCall 2000 sReady))) =
     messages sReady @ [newUserMessage 2000 sReady]"
proof -
  have g: "fst (generateOrionResponse js0 (Some ''key'') failingCall (messages sReady) (input sReady)
          (attachedImages sReady) (deviceContext sReady) (settings sReady)) = Inl (Raised ())"
    by (simp add: generateOrionResponse_def falsy_def buildRequest_def failingCall_def
        sReady_fields sResponding_fields)
  have h: "\<not> submitRejected sReady \<and> timers sReady = [] \<and>
   fst (generateOrionResponse js0 (Some ''key'') failingCall (messages sReady) (input sReady)
          (attachedImages sReady) (deviceContext sReady) (settings sReady)) = Inl (Raised ())"
    using sReady_accepted sReady_fields(1) g by blast
  note t = failed_turn_sequence [of sReady js0 "Some ''key''" failingCall "Raised ()" 2000 5000,
      unfolded Let_def, rule_format, OF h]
  from t have "map orionState
     [sReady, handleSendMessage_sync 2000 sReady,
      fst (handleSendMessage js0 (Some ''key'') failingCall 2000 sReady),
      fireTimer 0 5000 (fst (handleSendMessage js0 (Some ''key'') failingCall 2000 sReady))] =
     [orionState sReady, Thinking, Error, Idle]"
    by (rule conjunct1)
  moreover from t have "messages (fireTimer 0 5000
               (fst (handleSendMessage js0 (Some ''key'') failingCall 2000 sReady))) =
     messages sReady @ [newUserMessage 2000 sReady]"
    by blast
  ultimately show ?thesis
    using h unfolding sReady_fields(2) by blast
qed

text \<open>
  C2 as stated covers every accepted send. A send is accepted in Responding, while
  the display of the previous reply is still pending; when its service call fails,
  the pending display fires before the reset does, so the state passes through
  Responding, Thinking, Error, Idle, Idle and the transcript ends with the message
  of the user followed by a message of the assistant.
\<close>

theorem failed_turn_pending_reply_counterexample:
  "reachable sResponding \<and> \<not> submitRejected sResponding \<and>
   fst (generateOrionResponse js0 (Some ''key'') failingCall (messages sResponding) (input sResponding)
          (attachedImages sResponding) (deviceContext sResponding) (settings sResponding)) =
     Inl (Raised ()) \<and>
   timers (fst (handleSendMessage js0 (Some ''key'') failingCall 2500 sResponding)) =
     [(800, AppendReply ''reply''), (3000, ResetIdle)] \<and>
   map orionState
     [sResponding,
      handleSendMessage_sync 2500 sResponding,
      fst (handleSendMessage js0 (Some ''key'') failingCall 2500 sResponding),
      fireTimer 0 2800 (fst (handleSendMessage js0 (Some ''key'') failingCall 2500 sResponding)),
      fireTimer 0 5500 (fireTimer 0 2800 (fst (handleSendMessage js0 (Some ''key'') failingCall 2500 sResponding)))] =
     [Responding, Thinking, Error, Idle, Idle] \<and>
   map sender (messages
      (fireTimer 0 5500 (fireTimer 0 2800 (fst (handleSendMessage js0 (Some ''key'') failingCall 2500 sResponding))))) =
     map sender (messages sResponding) @ [User, Orion] \<and>
   messages
      (fireTimer 0 5500 (fireTimer 0 2800 (fst (handleSendMessage js0 (Some ''key'') failingCall 2500 sResponding)))) \<noteq>
     messages sResponding @ [newUserMessage 2500 sResponding]"
proof -
  let ?s1 = "handleSendMessage_sync 2500 sResponding"
  let ?s2 = "fst (handleSendMessage js0 (Some ''key'') failingCall 2500 sResponding)"
  have g: "fst (generateOrionResponse js0 (Some ''key'') failingCall (messages sResponding) (input sResponding)
          (attachedImages sResponding) (deviceContext sResponding) (settings sResponding)) =
     Inl (Raised ())"
    by (simp add: generateOrionResponse_def falsy_def buildRequest_def failingCall_def
        sReady_fields sResponding_fields)
  have s1: "?s1 = sResponding\<lparr>messages := messages sResponding @ [newUserMessage 2500 sResponding],
      input := [], attachedImages := [], orionState := Thinking\<rparr>"
    using sResponding_accepted by (simp add: handleSendMessage_sync_def)
  have s2: "?s2 = ?s1\<lparr>orionState := Error,
      timers := [(800, AppendReply ''reply''), (3000, ResetIdle)]\<rparr>"
    using sResponding_accepted g
    by (simp add: handleSendMessage_def Let_def split_beta handleSendMessage_settled_def s1
        sResponding_fields)
  have s3: "fireTimer 0 2800 ?s2 =
      ?s1\<lparr>messages := messages sResponding @ [newUserMessage 2500 sResponding] @
          [\<lparr>id_msg = toString_nat 2801, text_msg = ''reply'', sender = Orion, timestamp = 2800,
            attachments = None\<rparr>],
        orionState := Idle, timers := [(3000, ResetIdle)]\<rparr>"
    unfolding s2 by (simp add: fireTimer_def s1)
  have s4: "fireTimer 0 5500 (fireTimer 0 2800 ?s2) =
      ?s1\<lparr>messages := messages sResponding @ [newUserMessage 2500 sResponding] @
          [\<lparr>id_msg = toString_nat 2801, text_msg = ''reply'', sender = Orion, timestamp = 2800,
            attachments = None\<rparr>],
        orionState := Idle, timers := []\<rparr>"
    unfolding s3 by (simp add: fireTimer_def s1)
  have a: "timers ?s2 = [(800, AppendReply ''reply''), (3000, ResetIdle)]"
    unfolding s2 by simp
  have b: "map orionState [sResponding, ?s1, ?s2, fireTimer 0 2800 ?s2,
      fireTimer 0 5500 (fireTimer 0 2800 ?s2)] = [Responding, Thinking, Error, Idle, Idle]"
  proof -
    have "orionState ?s1 = Thinking" unfolding s1 by simp
    moreover have "orionState ?s2 = Error" unfolding s2 by simp
    moreover have "orionState (fireTimer 0 2800 ?s2) = Idle" unfolding s3 by simp
    moreover have "orionState (fireTimer 0 5500 (fireTimer 0 2800 ?s2)) = Idle" unfolding s4 by simp
    ultimately show ?thesis by (simp add: sResponding_fields)
  qed
  have c: "map sender (messages (fireTimer 0 5500 (fireTimer 0 2800 ?s2))) =
     map sender (messages sResponding) @ [User, Orion]"
    unfolding s4 by (simp add: s1 newUserMessage_def)
  have d: "messages (fireTimer 0 5500 (fireTimer 0 2800 ?s2)) \<noteq>
     messages sResponding @ [newUserMessage 2500 sResponding]"
    unfolding s4 by (simp add: s1)
  show ?thesis
    using reachable_sResponding sResponding_accepted g a b c d by blast
qed

text \<open>
  C9. Each operation of the session state machine (send, settlement of the gateway
  call with a text or a failure, delayed display of the reply, timed reset) leaves
  the transcript as it was or appends at most one message at its end; so after any
  sequence of these operations the transcript before is a prefix of the transcript
  after: it is not shorter, and its entries are unchanged and in the same order.
  (The greeting scheduled at mount is not one of these operations: its callback sets
  the transcript to the greeting alone.)
\<close>

theorem transcript_append_only:
  "(\<exists>added. messages (applyOp op s) = messages s @ added \<and> length added \<le> 1) \<and>
   (\<exists>added. messages (foldl (\<lambda>s op. applyOp op s) s ops) = messages s @ added) \<and>
   length (messages s) \<le> length (messages (foldl (\<lambda>s op. applyOp op s) s ops)) \<and>
   take (length (messages s)) (messages (foldl (\<lambda>s op. applyOp op s) s ops)) = messages s"
proof -
  obtain added where "messages (foldl (\<lambda>s op. applyOp op s) s ops) = messages s @ added"
    using run_appends by blast
  then show ?thesis using applyOp_appends [of op s] by simp
qed

end
